theory Spec2Isabelle
  imports Complex_Main "HOL-Library.Sublist"
begin

section \<open>Python strings\<close>

text \<open>
  A Python 3 \<open>str\<close> is a sequence of Unicode code points. It is modelled as a list of
  natural numbers, one per code point, so that slicing (\<open>s[7:]\<close>, \<open>s[:-3]\<close>), \<open>len\<close>,
  \<open>startswith\<close> and \<open>strip\<close> count what Python counts. \<open>ustr\<close> turns an Isabelle
  string literal into such a sequence.
\<close>

type_synonym pystr = "nat list"

definition ord :: "char \<Rightarrow> nat" where
  "ord c = of_char c"

definition ustr :: "string \<Rightarrow> pystr" where
  "ustr cs = map ord cs"

definition startswith :: "pystr \<Rightarrow> pystr \<Rightarrow> bool" where
  "startswith s p = (take (length p) s = p)"

definition endswith :: "pystr \<Rightarrow> pystr \<Rightarrow> bool" where
  "endswith s p = (length p \<le> length s \<and> drop (length s - length p) s = p)"

text \<open>\<open>p in s\<close> for two strings: \<open>p\<close> occurs in \<open>s\<close> as a contiguous run.\<close>

fun contains :: "pystr \<Rightarrow> pystr \<Rightarrow> bool" where
  "contains [] p = (p = [])"
| "contains (c # s) p = (startswith (c # s) p \<or> contains s p)"

section \<open>Constants of main.py\<close>

definition API_KEY_ENV_VAR :: pystr where
  "API_KEY_ENV_VAR = ustr ''GOOGLE_API_KEY''"




definition GENERATION_COUNT :: int where
  "GENERATION_COUNT = 10"

definition INITIAL_DELAY :: rat where
  "INITIAL_DELAY = 3"

section \<open>generate_responses\<close>

text \<open>
  The remote service is the environment of \<open>generate_responses\<close>. One execution of the
  \<open>try\<close> body (\<open>model.generate_content(prompt)\<close> followed by \<open>response.text\<close>) either
  yields the response text or raises an exception, of which the code inspects only
  \<open>str(e)\<close>. The service is therefore a function from the number of calls already made
  to the outcome of the next call.

  The loop state holds the local variables \<open>responses\<close>, \<open>delay\<close> and \<open>errors\<close>, and two
  observation fields that the code does not have: \<open>calls\<close>, the number of API calls made
  so far, and \<open>trace\<close>, the values of \<open>errors\<close> and \<open>delay\<close> after each handled call,
  in order. In the two branches that sleep, the second component is the argument of
  \<open>time.sleep\<close>.

  \<open>delay\<close> is the integer 3 that grows in steps of the float 0.5. A run of \<open>N\<close> slots
  counts at most \<open>20 + N\<close> errors, and every value \<open>3 + k / 2\<close> in that range is a binary
  floating-point number without rounding, so a rational models the delay exactly.
\<close>

datatype outcome = Returned pystr | Raised pystr

type_synonym service = "nat \<Rightarrow> outcome"

record gen_state =
  responses :: "pystr list"
  delay :: rat
  errors :: nat
  calls :: nat
  trace :: "(nat \<times> rat) list"

definition RATE_LIMIT_MARK :: pystr where
  "RATE_LIMIT_MARK = ustr ''rateLimitExceeded''"

definition initial_state :: gen_state where
  "initial_state =
     \<lparr>responses = [], delay = INITIAL_DELAY, errors = 0, calls = 0, trace = []\<rparr>"

text \<open>The step of the \<open>while True\<close> loop for a successful call (lines 52 to 55).\<close>

definition on_success :: "pystr \<Rightarrow> gen_state \<Rightarrow> gen_state" where
  "on_success body s =
     s\<lparr>responses := responses s @ [body], calls := Suc (calls s),
       trace := trace s @ [(errors s, delay s)]\<rparr>"

text \<open>The step for a rate-limit exception (lines 58 to 61).\<close>

definition on_rate_limit :: "gen_state \<Rightarrow> gen_state" where
  "on_rate_limit s =
     s\<lparr>delay := delay s + 1 / 2, errors := Suc (errors s), calls := Suc (calls s),
       trace := trace s @ [(Suc (errors s), delay s + 1 / 2)]\<rparr>"

text \<open>The step for any other exception (lines 63 to 65): logged, no response recorded.\<close>

definition on_other_error :: "gen_state \<Rightarrow> gen_state" where
  "on_other_error s = s\<lparr>calls := Suc (calls s), trace := trace s @ [(errors s, delay s)]\<rparr>"

text \<open>
  The \<open>while True\<close> loop of one slot (lines 50 to 67). A success and a non-rate-limit
  exception leave through their own \<open>break\<close>; a rate-limit exception reaches the test
  \<open>errors > 20\<close>, whose \<open>break\<close> leaves this loop, and otherwise the loop repeats.
\<close>

function slot_loop :: "service \<Rightarrow> gen_state \<Rightarrow> gen_state" where
  "slot_loop api s =
     (case api (calls s) of
        Returned body \<Rightarrow> on_success body s
      | Raised msg \<Rightarrow>
          if contains msg RATE_LIMIT_MARK
          then (if errors (on_rate_limit s) > 20 then on_rate_limit s
                else slot_loop api (on_rate_limit s))
          else on_other_error s)"
  by pat_completeness auto
termination
  by (relation "measure (\<lambda>(api, s). 21 - errors s)") (auto simp: on_rate_limit_def)

text \<open>The \<open>for\<close> loop over \<open>range(generation_count)\<close> (line 49).\<close>

fun for_slots :: "nat \<Rightarrow> service \<Rightarrow> gen_state \<Rightarrow> gen_state" where
  "for_slots 0 api s = s"
| "for_slots (Suc n) api s = for_slots n api (slot_loop api s)"

definition generate_run :: "service \<Rightarrow> int \<Rightarrow> gen_state" where
  "generate_run api generation_count = for_slots (nat generation_count) api initial_state"

definition generate_responses :: "service \<Rightarrow> int \<Rightarrow> pystr list" where
  "generate_responses api generation_count = responses (generate_run api generation_count)"

section \<open>Exceptions\<close>

text \<open>
  \<open>raised\<close> are the exceptions that library operations raise inside the \<open>try\<close> blocks;
  \<open>error\<close> are the exceptions that the \<open>raise\<close> statements of main.py construct. A
  \<open>RuntimeError\<close> of main.py is built from a fixed text followed by \<open>str(e)\<close> of the
  exception it wraps; it is kept as that pair.
\<close>

datatype raised = JSONDecodeError | LookupKeyError | TypeError | OSError pystr

datatype error =
    ValueError pystr
  | KeyError pystr
  | RuntimeError pystr raised
  | FileNotFoundError pystr

section \<open>load_api_key\<close>

text \<open>
  The process environment is a partial map from variable names to values.
  \<open>load_dotenv()\<close> is library code that changes the environment before it is read; it is
  a parameter. \<open>not api_key\<close> holds for \<open>None\<close> and for the empty string.
\<close>

type_synonym environ = "pystr \<rightharpoonup> pystr"

definition load_api_key :: "(environ \<Rightarrow> environ) \<Rightarrow> environ \<Rightarrow> error + pystr" where
  "load_api_key load_dotenv env =
     (case load_dotenv env API_KEY_ENV_VAR of
        None \<Rightarrow> Inl (ValueError (ustr ''API key not found in environment variable: '' @ API_KEY_ENV_VAR))
      | Some api_key \<Rightarrow>
          if api_key = []
          then Inl (ValueError (ustr ''API key not found in environment variable: '' @ API_KEY_ENV_VAR))
          else Inr api_key)"

section \<open>Files\<close>














section \<open>json.loads\<close>

text \<open>
  \<open>json.loads\<close> is library code. It is modelled for the grammar that the CPython
  decoder accepts in its default (strict) mode: the JSON grammar, with \<open>NaN\<close>,
  \<open>Infinity\<close> and \<open>-Infinity\<close> as numbers. \<open>None\<close> is \<open>json.JSONDecodeError\<close>. A number
  is kept as its lexeme: nothing in main.py computes with one. A \<open>dict\<close> is the list of
  its items in insertion order, with distinct keys. Interpreter limits (recursion depth,
  the length of an integer literal) are not modelled.
\<close>

datatype json =
    JNull
  | JBool bool
  | JNumber pystr
  | JString pystr
  | JArray "json list"
  | JObject "(pystr \<times> json) list"

datatype token = LBrace | RBrace | LBracket | RBracket | Comma | Colon | Scalar json

text \<open>The scanner: characters to tokens.\<close>

definition isdigit :: "nat \<Rightarrow> bool" where
  "isdigit c = (48 \<le> c \<and> c \<le> 57)"

definition hexval :: "nat \<Rightarrow> nat option" where
  "hexval c =
     (if 48 \<le> c \<and> c \<le> 57 then Some (c - 48)
      else if 97 \<le> c \<and> c \<le> 102 then Some (c - 87)
      else if 65 \<le> c \<and> c \<le> 70 then Some (c - 55)
      else None)"

fun hex4 :: "pystr \<Rightarrow> nat option" where
  "hex4 [a, b, c, d] =
     (case (hexval a, hexval b, hexval c, hexval d) of
        (Some w, Some x, Some y, Some z) \<Rightarrow> Some (((w * 16 + x) * 16 + y) * 16 + z)
      | _ \<Rightarrow> None)"
| "hex4 _ = None"

definition low_surrogate_escape :: "pystr \<Rightarrow> nat option" where
  "low_surrogate_escape w =
     (if length w = 6 \<and> w ! 0 = 92 \<and> w ! 1 = 117
      then (case hex4 (drop 2 w) of
              Some l \<Rightarrow> if 56320 \<le> l \<and> l \<le> 57343 then Some l else None
            | None \<Rightarrow> None)
      else None)"

definition simple_escape :: "nat \<Rightarrow> nat option" where
  "simple_escape e =
     (if e = 34 \<or> e = 92 \<or> e = 47 then Some e
      else if e = 98 then Some 8
      else if e = 102 then Some 12
      else if e = 110 then Some 10
      else if e = 114 then Some 13
      else if e = 116 then Some 9
      else None)"

text \<open>
  \<open>scanstring acc n s\<close> reads a string body up to its closing quote; \<open>acc\<close> is the
  decoded text so far and \<open>n\<close> the number of characters read. A high surrogate escape
  followed by a low surrogate escape is one code point. A raw character below 32 is an
  error.
\<close>

fun scanstring :: "pystr \<Rightarrow> nat \<Rightarrow> pystr \<Rightarrow> (pystr \<times> nat) option" where
  "scanstring acc n [] = None"
| "scanstring acc n (c # r) =
     (if c = 34 then Some (acc, Suc n)
      else if c = 92 then
        (case r of
           [] \<Rightarrow> None
         | e # r' \<Rightarrow>
             if e = 117 then
               (case hex4 (take 4 r') of
                  None \<Rightarrow> None
                | Some u \<Rightarrow>
                    (case (if 55296 \<le> u \<and> u \<le> 56319
                           then low_surrogate_escape (take 6 (drop 4 r')) else None) of
                       Some l \<Rightarrow>
                         scanstring (acc @ [65536 + (u - 55296) * 1024 + (l - 56320)])
                           (n + 12) (drop 10 r')
                     | None \<Rightarrow> scanstring (acc @ [u]) (n + 6) (drop 4 r')))
             else
               (case simple_escape e of
                  None \<Rightarrow> None
                | Some ch \<Rightarrow> scanstring (acc @ [ch]) (n + 2) r'))
      else if c < 32 then None
      else scanstring (acc @ [c]) (Suc n) r)"

text \<open>
  The longest prefix that is a number: an optional minus sign, then a zero or a nonzero
  digit with further digits, then optionally a point with digits, then optionally an
  exponent mark with an optional sign and digits. Empty when there is none.
\<close>

definition number_lexeme :: "pystr \<Rightarrow> pystr" where
  "number_lexeme s =
     (let sign = (if startswith s [45] then [45] else []);
          s1 = drop (length sign) s;
          ds = takeWhile isdigit s1;
          intpart = (if startswith ds [48] then [48] else ds);
          s2 = drop (length intpart) s1;
          fd = takeWhile isdigit (drop 1 s2);
          frac = (if startswith s2 [46] \<and> fd \<noteq> [] then 46 # fd else []);
          s3 = drop (length frac) s2;
          es = (if startswith (drop 1 s3) [43] \<or> startswith (drop 1 s3) [45]
                then take 1 (drop 1 s3) else []);
          ed = takeWhile isdigit (drop (Suc (length es)) s3);
          expo = (if (startswith s3 [101] \<or> startswith s3 [69]) \<and> ed \<noteq> []
                  then take 1 s3 @ es @ ed else [])
      in if intpart = [] then [] else sign @ intpart @ frac @ expo)"

definition isjsonspace :: "nat \<Rightarrow> bool" where
  "isjsonspace c = (c = 32 \<or> c = 9 \<or> c = 10 \<or> c = 13)"

definition punctuation :: "nat \<Rightarrow> token option" where
  "punctuation c =
     (if c = 123 then Some LBrace
      else if c = 125 then Some RBrace
      else if c = 91 then Some LBracket
      else if c = 93 then Some RBracket
      else if c = 44 then Some Comma
      else if c = 58 then Some Colon
      else None)"

definition literals :: "(pystr \<times> json) list" where
  "literals =
     [(ustr ''null'', JNull), (ustr ''true'', JBool True), (ustr ''false'', JBool False),
      (ustr ''NaN'', JNumber (ustr ''NaN'')), (ustr ''Infinity'', JNumber (ustr ''Infinity'')),
      (ustr ''-Infinity'', JNumber (ustr ''-Infinity''))]"

function tokenize :: "pystr \<Rightarrow> token list option" where
  "tokenize [] = Some []"
| "tokenize (c # r) =
     (if isjsonspace c then tokenize r
      else case punctuation c of
        Some t \<Rightarrow> map_option (Cons t) (tokenize r)
      | None \<Rightarrow>
          if c = 34 then
            (case scanstring [] 0 r of
               None \<Rightarrow> None
             | Some (str, n) \<Rightarrow> map_option (Cons (Scalar (JString str))) (tokenize (drop n r)))
          else
            (case find (\<lambda>(w, v). startswith (c # r) w) literals of
               Some (w, v) \<Rightarrow> map_option (Cons (Scalar v)) (tokenize (drop (length w - 1) r))
             | None \<Rightarrow>
                 if number_lexeme (c # r) = [] then None
                 else map_option (Cons (Scalar (JNumber (number_lexeme (c # r)))))
                        (tokenize (drop (length (number_lexeme (c # r)) - 1) r))))"
  by pat_completeness auto
termination
  by (relation "measure length") auto

text \<open>
  The parser reads the tokens from left to right. It keeps the containers that are
  still open, innermost first, and what the grammar allows next.
\<close>

datatype frame = ArrayFrame "json list" | ObjectFrame "(pystr \<times> json) list" | KeyFrame pystr

datatype expect = ExpValue | ExpValueOrClose | ExpKeyOrClose | ExpKey | ExpColon | ExpDelim | ExpEnd json

text \<open>\<open>d[k] = v\<close> on a \<open>dict\<close> that keeps insertion order.\<close>

definition dict_set :: "(pystr \<times> json) list \<Rightarrow> pystr \<Rightarrow> json \<Rightarrow> (pystr \<times> json) list" where
  "dict_set kvs k v =
     (if k \<in> fst ` set kvs then map (\<lambda>(k', v'). if k' = k then (k', v) else (k', v')) kvs
      else kvs @ [(k, v)])"

definition complete :: "json \<Rightarrow> frame list \<Rightarrow> (expect \<times> frame list) option" where
  "complete v stack =
     (case stack of
        [] \<Rightarrow> Some (ExpEnd v, [])
      | ArrayFrame items # st \<Rightarrow> Some (ExpDelim, ArrayFrame (items @ [v]) # st)
      | KeyFrame k # ObjectFrame kvs # st \<Rightarrow> Some (ExpDelim, ObjectFrame (dict_set kvs k v) # st)
      | _ \<Rightarrow> None)"

definition close_array :: "frame list \<Rightarrow> (expect \<times> frame list) option" where
  "close_array stack =
     (case stack of ArrayFrame items # st \<Rightarrow> complete (JArray items) st | _ \<Rightarrow> None)"

definition close_object :: "frame list \<Rightarrow> (expect \<times> frame list) option" where
  "close_object stack =
     (case stack of ObjectFrame kvs # st \<Rightarrow> complete (JObject kvs) st | _ \<Rightarrow> None)"

definition start_value :: "token \<Rightarrow> frame list \<Rightarrow> (expect \<times> frame list) option" where
  "start_value t stack =
     (case t of
        Scalar v \<Rightarrow> complete v stack
      | LBracket \<Rightarrow> Some (ExpValueOrClose, ArrayFrame [] # stack)
      | LBrace \<Rightarrow> Some (ExpKeyOrClose, ObjectFrame [] # stack)
      | _ \<Rightarrow> None)"

definition start_key :: "token \<Rightarrow> frame list \<Rightarrow> (expect \<times> frame list) option" where
  "start_key t stack =
     (case t of Scalar (JString k) \<Rightarrow> Some (ExpColon, KeyFrame k # stack) | _ \<Rightarrow> None)"

definition parse_step :: "expect \<times> frame list \<Rightarrow> token \<Rightarrow> (expect \<times> frame list) option" where
  "parse_step st t =
     (case st of (e, stack) \<Rightarrow>
        (case e of
           ExpValue \<Rightarrow> start_value t stack
         | ExpValueOrClose \<Rightarrow> if t = RBracket then close_array stack else start_value t stack
         | ExpKeyOrClose \<Rightarrow> if t = RBrace then close_object stack else start_key t stack
         | ExpKey \<Rightarrow> start_key t stack
         | ExpColon \<Rightarrow> if t = Colon then Some (ExpValue, stack) else None
         | ExpDelim \<Rightarrow>
             if t = RBracket then close_array stack
             else if t = RBrace then close_object stack
             else if t = Comma then
               (case stack of
                  ArrayFrame items # st' \<Rightarrow> Some (ExpValue, stack)
                | ObjectFrame kvs # st' \<Rightarrow> Some (ExpKey, stack)
                | _ \<Rightarrow> None)
             else None
         | ExpEnd v \<Rightarrow> None))"

fun parse_tokens :: "expect \<times> frame list \<Rightarrow> token list \<Rightarrow> json option" where
  "parse_tokens st [] = (case st of (ExpEnd v, stack) \<Rightarrow> Some v | _ \<Rightarrow> None)"
| "parse_tokens st (t # ts) =
     (case parse_step st t of None \<Rightarrow> None | Some st' \<Rightarrow> parse_tokens st' ts)"

definition json_loads :: "pystr \<Rightarrow> json option" where
  "json_loads s =
     (case tokenize s of None \<Rightarrow> None | Some ts \<Rightarrow> parse_tokens (ExpValue, []) ts)"

section \<open>extract_prompts_from_json\<close>

definition FENCE_OPEN :: pystr where
  "FENCE_OPEN = ustr ''```json''"

definition FENCE_CLOSE :: pystr where
  "FENCE_CLOSE = ustr ''```''"

definition PROMPT_KEY :: pystr where
  "PROMPT_KEY = ustr ''prompt''"

text \<open>Lines 73 to 76: \<open>json_string[7:]\<close> after \<open>startswith\<close>, then \<open>json_string[:-3]\<close> after \<open>endswith\<close>.\<close>

definition strip_fences :: "pystr \<Rightarrow> pystr" where
  "strip_fences json_string =
     (let s1 = (if startswith json_string FENCE_OPEN then drop 7 json_string else json_string)
      in if endswith s1 FENCE_CLOSE then take (length s1 - 3) s1 else s1)"

text \<open>
  \<open>for item in data\<close>: a list yields its items, a \<open>dict\<close> its keys, a \<open>str\<close> its
  characters; \<open>None\<close>, a \<open>bool\<close> and a number raise \<open>TypeError\<close>.
\<close>

definition iterate :: "json \<Rightarrow> raised + json list" where
  "iterate data =
     (case data of
        JArray items \<Rightarrow> Inr items
      | JObject kvs \<Rightarrow> Inr (map (\<lambda>(k, v). JString k) kvs)
      | JString s \<Rightarrow> Inr (map (\<lambda>c. JString [c]) s)
      | _ \<Rightarrow> Inl TypeError)"

text \<open>
  \<open>item["prompt"]\<close>: a \<open>dict\<close> yields the value or raises \<open>KeyError\<close>; every other value
  raises \<open>TypeError\<close> (a list and a \<open>str\<close> take integer indices, the rest take none).
\<close>

definition getitem_prompt :: "json \<Rightarrow> raised + json" where
  "getitem_prompt item =
     (case item of
        JObject kvs \<Rightarrow> (case map_of kvs PROMPT_KEY of Some v \<Rightarrow> Inr v | None \<Rightarrow> Inl LookupKeyError)
      | _ \<Rightarrow> Inl TypeError)"

text \<open>The comprehension \<open>[item["prompt"] for item in data]\<close>: the first exception ends it.\<close>

fun comprehension :: "json list \<Rightarrow> raised + json list" where
  "comprehension [] = Inr []"
| "comprehension (item # items) =
     (case getitem_prompt item of
        Inl e \<Rightarrow> Inl e
      | Inr v \<Rightarrow> (case comprehension items of Inl e \<Rightarrow> Inl e | Inr vs \<Rightarrow> Inr (v # vs)))"

text \<open>The body of the \<open>try\<close> after the fences are gone (lines 78 to 80).\<close>

definition try_extract :: "pystr \<Rightarrow> raised + json list" where
  "try_extract s =
     (case json_loads s of
        None \<Rightarrow> Inl JSONDecodeError
      | Some data \<Rightarrow> (case iterate data of Inl e \<Rightarrow> Inl e | Inr items \<Rightarrow> comprehension items))"

text \<open>The three \<open>except\<close> clauses in their order (lines 81 to 86).\<close>

definition extract_prompts_from_json :: "pystr \<Rightarrow> error + json list" where
  "extract_prompts_from_json json_string =
     (let s = strip_fences json_string
      in case try_extract s of
           Inr prompts \<Rightarrow> Inr prompts
         | Inl JSONDecodeError \<Rightarrow> Inl (ValueError (ustr ''Invalid JSON string: '' @ s))
         | Inl LookupKeyError \<Rightarrow> Inl (KeyError (ustr ''Missing 'prompt' key in JSON: '' @ s))
         | Inl e \<Rightarrow> Inl (RuntimeError (ustr ''Error extracting prompts from JSON: '') e))"

section \<open>process_responses\<close>

text \<open>
  \<open>except (ValueError, KeyError, RuntimeError)\<close> catches these three classes; any other
  exception leaves \<open>process_responses\<close>. Each caught exception is logged together with
  the response; the log is returned beside the prompts.
\<close>

fun caught :: "error \<Rightarrow> bool" where
  "caught (ValueError m) = True"
| "caught (KeyError m) = True"
| "caught (RuntimeError m e) = True"
| "caught (FileNotFoundError m) = False"

type_synonym log = "(error \<times> pystr) list"

fun process_loop :: "pystr list \<Rightarrow> json list \<times> log \<Rightarrow> error + json list \<times> log" where
  "process_loop [] acc = Inr acc"
| "process_loop (response # rest) (all_prompts, logged) =
     (case extract_prompts_from_json response of
        Inr extracted_prompts \<Rightarrow> process_loop rest (all_prompts @ extracted_prompts, logged)
      | Inl e \<Rightarrow>
          if caught e then process_loop rest (all_prompts, logged @ [(e, response)])
          else Inl e)"

definition process_responses :: "pystr list \<Rightarrow> error + json list \<times> log" where
  "process_responses rs = process_loop rs ([], [])"

section \<open>Notions used in the statements\<close>

text \<open>A call outcome that line 57 classifies as a rate-limit error.\<close>

fun rate_limited :: "outcome \<Rightarrow> bool" where
  "rate_limited (Returned body) = False"
| "rate_limited (Raised msg) = contains msg RATE_LIMIT_MARK"

text \<open>A service on which every call fails with the same rate-limit error.\<close>

definition always_rate_limited :: service where
  "always_rate_limited = (\<lambda>i. Raised (ustr ''429 rateLimitExceeded''))"






text \<open>A JSON value is an object; it is an object that has the key \<open>"prompt"\<close>.\<close>

fun is_object :: "json \<Rightarrow> bool" where
  "is_object (JObject kvs) = True"
| "is_object v = False"

fun has_prompt :: "json \<Rightarrow> bool" where
  "has_prompt (JObject kvs) = (map_of kvs PROMPT_KEY \<noteq> None)"
| "has_prompt v = False"

text \<open>What a response adds to the prompts and to the log of \<open>process_responses\<close>.\<close>

definition prompts_of :: "pystr \<Rightarrow> json list" where
  "prompts_of response =
     (case extract_prompts_from_json response of Inr ps \<Rightarrow> ps | Inl e \<Rightarrow> [])"

definition logged_of :: "pystr \<Rightarrow> log" where
  "logged_of response =
     (case extract_prompts_from_json response of Inr ps \<Rightarrow> [] | Inl e \<Rightarrow> [(e, response)])"

section \<open>Properties of generate_responses\<close>

declare slot_loop.simps [simp del]



lemma slot_loop_give_up:
  "api (calls s) = Raised msg \<Longrightarrow> contains msg RATE_LIMIT_MARK \<Longrightarrow> 20 \<le> errors s \<Longrightarrow>
   slot_loop api s = on_rate_limit s"
  by (simp add: slot_loop.simps [of api s] on_rate_limit_def)

lemma slot_loop_retry:
  "api (calls s) = Raised msg \<Longrightarrow> contains msg RATE_LIMIT_MARK \<Longrightarrow> errors s < 20 \<Longrightarrow>
   slot_loop api s = slot_loop api (on_rate_limit s)"
  by (simp add: slot_loop.simps [of api s] on_rate_limit_def)









lemma no_retry_after_ceiling:
  "20 < errors s \<Longrightarrow> calls (slot_loop api s) = Suc (calls s)"
  by (cases "api (calls s)")
     (auto simp: slot_loop.simps [of api s] on_success_def on_rate_limit_def on_other_error_def)




text \<open>The run on a service whose every call is rate-limited.\<close>

lemma storm_slot:
  "\<forall>i. rate_limited (api i) \<Longrightarrow>
   responses (slot_loop api s) = responses s \<and>
   errors (slot_loop api s) = max 21 (Suc (errors s)) \<and>
   calls (slot_loop api s) = calls s + (max 21 (Suc (errors s)) - errors s)"
proof (induction api s rule: slot_loop.induct)
  case (1 api s)
  from "1.prems" have "rate_limited (api (calls s))" by blast
  then obtain msg where raised: "api (calls s) = Raised msg"
    and mark: "contains msg RATE_LIMIT_MARK"
    by (cases "api (calls s)") auto
  show ?case
  proof (cases "20 < errors (on_rate_limit s)")
    case True
    then have "20 \<le> errors s" by (simp add: on_rate_limit_def)
    with raised mark show ?thesis
      by (simp add: slot_loop_give_up on_rate_limit_def max_def)
  next
    case False
    then have lt: "errors s < 20" by (simp add: on_rate_limit_def)
    with raised mark have eq: "slot_loop api s = slot_loop api (on_rate_limit s)"
      by (rule slot_loop_retry)
    from "1.IH" [OF raised mark False "1.prems"] lt show ?thesis
      unfolding eq by (auto simp add: on_rate_limit_def max_def)
  qed
qed

lemma storm_slots_above:
  "\<forall>i. rate_limited (api i) \<Longrightarrow> 20 < errors s \<Longrightarrow>
   responses (for_slots n api s) = responses s \<and>
   errors (for_slots n api s) = errors s + n \<and>
   calls (for_slots n api s) = calls s + n"
proof (induction n arbitrary: s)
  case 0
  show ?case by simp
next
  case (Suc n)
  from storm_slot [OF Suc.prems(1), of s] Suc.prems(2)
  have step: "responses (slot_loop api s) = responses s"
    "errors (slot_loop api s) = Suc (errors s)"
    "calls (slot_loop api s) = Suc (calls s)"
    by (simp_all add: max_def)
  then have "20 < errors (slot_loop api s)" using Suc.prems(2) by simp
  from Suc.IH [OF Suc.prems(1) this] step show ?case by simp
qed

lemma storm_first_slot:
  assumes "\<forall>i. rate_limited (api i)"
  shows "responses (slot_loop api initial_state) = []"
    and "errors (slot_loop api initial_state) = 21"
    and "calls (slot_loop api initial_state) = 21"
  using storm_slot [OF assms, of initial_state] by (simp_all add: initial_state_def)

lemma storm_run:
  assumes "\<forall>i. rate_limited (api i)"
  shows "responses (for_slots (Suc n) api initial_state) = [] \<and>
         errors (for_slots (Suc n) api initial_state) = 21 + n \<and>
         calls (for_slots (Suc n) api initial_state) = 21 + n"
proof -
  note first = storm_first_slot [OF assms]
  then have "20 < errors (slot_loop api initial_state)" by simp
  from storm_slots_above [OF assms this, of n] first show ?thesis by simp
qed

lemma always_rate_limited_storm: "\<forall>i. rate_limited (always_rate_limited i)"
  by (simp add: always_rate_limited_def RATE_LIMIT_MARK_def ustr_def ord_def startswith_def)

text \<open>
  C1 (amended). When every API call fails with a rate-limit error, \<open>generate_responses\<close>
  returns no response and raises nothing. For a positive slot count the first slot makes
  21 calls, which bring the error counter to 21 and end the retries of that slot; the
  \<open>for\<close> loop goes on, and every later slot makes one call: the run ends with the
  counter at 20 plus the slot count, which is also the number of calls. Whatever the
  service answers, a slot that starts with the counter above 20 makes one call only.
\<close>

theorem rate_limit_storm_run:
  assumes "\<forall>i. rate_limited (api i)"
  shows "generate_responses api n = [] \<and>
         errors (generate_run api n) = (if n \<le> 0 then 0 else 20 + nat n) \<and>
         calls (generate_run api n) = errors (generate_run api n) \<and>
         (0 < n \<longrightarrow> errors (slot_loop api initial_state) = 21 \<and>
                   calls (slot_loop api initial_state) = 21) \<and>
         (\<forall>api' s. 20 < errors s \<longrightarrow> calls (slot_loop api' s) = Suc (calls s))"
proof (cases "n \<le> 0")
  case True
  then show ?thesis
    by (simp add: generate_responses_def generate_run_def initial_state_def
          no_retry_after_ceiling)
next
  case False
  then obtain m where m: "nat n = Suc m" by (cases "nat n") auto
  from storm_run [OF assms, of m] storm_first_slot [OF assms] False m
  show ?thesis
    by (simp add: generate_responses_def generate_run_def no_retry_after_ceiling)
qed

theorem rate_limit_storm_run_witness:
  "(\<forall>i. rate_limited (always_rate_limited i)) \<and>
   generate_responses always_rate_limited 3 = [] \<and>
   errors (generate_run always_rate_limited 3) = 23 \<and>
   calls (generate_run always_rate_limited 3) = 23"
  using rate_limit_storm_run [OF always_rate_limited_storm, of 3] always_rate_limited_storm
  by simp

text \<open>
  C1 as stated fails on the default run of ten slots: the counter is 21 after 21 calls,
  at the end of the first slot, and the run goes on to 30 calls and a counter of 30.
\<close>

theorem rate_limit_storm_does_not_abort:
  "errors (slot_loop always_rate_limited initial_state) = 21 \<and>
   calls (slot_loop always_rate_limited initial_state) = 21 \<and>
   errors (generate_run always_rate_limited GENERATION_COUNT) = 30 \<and>
   calls (generate_run always_rate_limited GENERATION_COUNT) = 30"
proof -
  have "nat GENERATION_COUNT = Suc 9" by (simp add: GENERATION_COUNT_def)
  with storm_run [OF always_rate_limited_storm, of 9]
    storm_first_slot [OF always_rate_limited_storm]
  show ?thesis by (simp add: generate_run_def)
qed


section \<open>Properties of the strings\<close>

lemma startswith_append: "startswith (p @ s) p"
  by (simp add: startswith_def)

lemma endswith_append: "endswith (s @ p) p"
  by (simp add: endswith_def)

lemma startswith_contains: "startswith s p \<Longrightarrow> contains s p"
  by (cases s) (auto simp: startswith_def)

lemma contains_append: "contains (a @ p @ b) p"
proof (induction a)
  case Nil
  show ?case by (simp add: startswith_contains startswith_append)
next
  case (Cons c a)
  then show ?case by simp
qed

lemma contains_suffix: "contains (a @ p) p"
  using contains_append [of a p "[]"] by simp




section \<open>Properties of load_api_key and read_prompt_from_file\<close>

text \<open>
  C8. \<open>load_api_key\<close> raises a \<open>ValueError\<close> whose message names the variable exactly
  when the variable, as \<open>os.getenv\<close> finds it after \<open>load_dotenv()\<close>, is unset or empty;
  otherwise it returns the value of the variable unchanged. It raises nothing else.
\<close>

theorem load_api_key_raises_iff_unset_or_empty:
  "((\<exists>msg. load_api_key load_dotenv env = Inl (ValueError msg) \<and> contains msg API_KEY_ENV_VAR)
      \<longleftrightarrow> (load_dotenv env API_KEY_ENV_VAR = None \<or> load_dotenv env API_KEY_ENV_VAR = Some [])) \<and>
   (\<forall>v. load_dotenv env API_KEY_ENV_VAR = Some v \<and> v \<noteq> [] \<longrightarrow>
        load_api_key load_dotenv env = Inr v) \<and>
   (\<forall>e. load_api_key load_dotenv env = Inl e \<longrightarrow>
        (\<exists>msg. e = ValueError msg \<and> contains msg API_KEY_ENV_VAR))"
  by (auto simp: load_api_key_def contains_suffix split: option.splits)

theorem load_api_key_witness:
  "load_api_key (\<lambda>env. env) [API_KEY_ENV_VAR \<mapsto> ustr ''secret''] = Inr (ustr ''secret'') \<and>
   (\<exists>msg. load_api_key (\<lambda>env. env) [API_KEY_ENV_VAR \<mapsto> []] = Inl (ValueError msg) \<and>
      contains msg API_KEY_ENV_VAR)"
  using load_api_key_raises_iff_unset_or_empty
          [of "\<lambda>env. env" "[API_KEY_ENV_VAR \<mapsto> ustr ''secret'']"]
        load_api_key_raises_iff_unset_or_empty [of "\<lambda>env. env" "[API_KEY_ENV_VAR \<mapsto> []]"]
  by (simp add: ustr_def)



section \<open>Properties of the writers\<close>














section \<open>Properties of extract_prompts_from_json\<close>

lemma fence_lengths: "length FENCE_OPEN = 7" "length FENCE_CLOSE = 3"
  by (simp_all add: FENCE_OPEN_def FENCE_CLOSE_def ustr_def)

lemma strip_fences_both: "strip_fences (FENCE_OPEN @ body @ FENCE_CLOSE) = body"
proof -
  have "startswith (FENCE_OPEN @ body @ FENCE_CLOSE) FENCE_OPEN" by (rule startswith_append)
  moreover have "drop 7 (FENCE_OPEN @ body @ FENCE_CLOSE) = body @ FENCE_CLOSE"
    by (simp add: fence_lengths)
  moreover have "endswith (body @ FENCE_CLOSE) FENCE_CLOSE" by (rule endswith_append)
  ultimately show ?thesis by (simp add: strip_fences_def fence_lengths)
qed

lemma strip_fences_open_only:
  "\<not> endswith body FENCE_CLOSE \<Longrightarrow> strip_fences (FENCE_OPEN @ body) = body"
  using startswith_append [of FENCE_OPEN body] by (simp add: strip_fences_def fence_lengths)

lemma strip_fences_close_only:
  "\<not> startswith (body @ FENCE_CLOSE) FENCE_OPEN \<Longrightarrow> strip_fences (body @ FENCE_CLOSE) = body"
  using endswith_append [of body FENCE_CLOSE] by (simp add: strip_fences_def fence_lengths)

lemma strip_fences_none:
  "\<not> startswith s FENCE_OPEN \<Longrightarrow> \<not> endswith s FENCE_CLOSE \<Longrightarrow> strip_fences s = s"
  by (simp add: strip_fences_def)

lemma getitem_has_prompt: "has_prompt item \<Longrightarrow> \<exists>v. getitem_prompt item = Inr v"
  by (cases item) (auto simp: getitem_prompt_def)

lemma getitem_missing:
  "\<not> has_prompt item \<Longrightarrow>
   getitem_prompt item = Inl (if is_object item then LookupKeyError else TypeError)"
  by (cases item) (auto simp: getitem_prompt_def)

lemma comprehension_values:
  "list_all2 (\<lambda>item v. \<exists>kvs. item = JObject kvs \<and> map_of kvs PROMPT_KEY = Some v) items vs \<Longrightarrow>
   comprehension items = Inr vs"
  by (induction items vs rule: list_all2_induct) (auto simp: getitem_prompt_def)

lemma comprehension_first_failure:
  "list_all has_prompt pre \<Longrightarrow> \<not> has_prompt item \<Longrightarrow>
   comprehension (pre @ item # rest) = Inl (if is_object item then LookupKeyError else TypeError)"
proof (induction pre)
  case Nil
  then show ?case by (simp add: getitem_missing)
next
  case (Cons p pre)
  then obtain v where "getitem_prompt p = Inr v" using getitem_has_prompt [of p] by auto
  with Cons show ?case by simp
qed

lemma extract_of_values:
  "try_extract (strip_fences s) = Inr vs \<Longrightarrow> extract_prompts_from_json s = Inr vs"
  by (simp add: extract_prompts_from_json_def)

lemma extract_of_decode_error:
  "json_loads (strip_fences s) = None \<Longrightarrow>
   extract_prompts_from_json s = Inl (ValueError (ustr ''Invalid JSON string: '' @ strip_fences s))"
  by (simp add: extract_prompts_from_json_def try_extract_def)

lemma extract_of_key_error:
  "try_extract (strip_fences s) = Inl LookupKeyError \<Longrightarrow>
   extract_prompts_from_json s =
     Inl (KeyError (ustr ''Missing 'prompt' key in JSON: '' @ strip_fences s))"
  by (simp add: extract_prompts_from_json_def)

lemma extract_of_type_error:
  "try_extract (strip_fences s) = Inl TypeError \<Longrightarrow>
   extract_prompts_from_json s =
     Inl (RuntimeError (ustr ''Error extracting prompts from JSON: '') TypeError)"
  by (simp add: extract_prompts_from_json_def)

lemma extract_caught: "extract_prompts_from_json s = Inl e \<Longrightarrow> caught e"
  by (auto simp: extract_prompts_from_json_def Let_def split: sum.splits raised.splits)

lemma try_extract_list:
  "json_loads s = Some (JArray items) \<Longrightarrow> try_extract s = comprehension items"
  by (simp add: try_extract_def iterate_def split: sum.splits)

lemma try_extract_type_error:
  assumes "json_loads s = Some data"
    and "data = JNull \<or> (\<exists>b. data = JBool b) \<or> (\<exists>n. data = JNumber n) \<or>
         (\<exists>c cs. data = JString (c # cs)) \<or> (\<exists>kv kvs. data = JObject (kv # kvs)) \<or>
         (\<exists>pre item rest. data = JArray (pre @ item # rest) \<and> list_all has_prompt pre \<and>
            \<not> is_object item)"
  shows "try_extract s = Inl TypeError"
proof -
  from assms(2) consider (scalar) "data = JNull \<or> (\<exists>b. data = JBool b) \<or> (\<exists>n. data = JNumber n)"
    | (str) c cs where "data = JString (c # cs)"
    | (dict) kv kvs where "data = JObject (kv # kvs)"
    | (list) pre item rest where "data = JArray (pre @ item # rest)" "list_all has_prompt pre"
        "\<not> is_object item"
    by blast
  then show ?thesis
  proof cases
    case scalar
    with assms(1) show ?thesis by (auto simp: try_extract_def iterate_def)
  next
    case str
    with assms(1) show ?thesis by (simp add: try_extract_def iterate_def getitem_prompt_def)
  next
    case dict
    with assms(1) show ?thesis
      by (cases kv) (simp add: try_extract_def iterate_def getitem_prompt_def)
  next
    case list
    from list(3) have "\<not> has_prompt item" by (cases item) auto
    from comprehension_first_failure [OF list(2) this, of rest] list(3)
    have "comprehension (pre @ item # rest) = Inl TypeError" by simp
    with assms(1) list(1) show ?thesis by (simp add: try_extract_list)
  qed
qed

section \<open>Properties of process_responses\<close>

lemma process_loop_concat:
  "process_loop rs (ps, lg) =
   Inr (ps @ concat (map prompts_of rs), lg @ concat (map logged_of rs))"
proof (induction rs arbitrary: ps lg)
  case Nil
  show ?case by simp
next
  case (Cons r rs)
  show ?case
  proof (cases "extract_prompts_from_json r")
    case (Inl e)
    then have "caught e" by (rule extract_caught)
    with Inl Cons show ?thesis by (simp add: prompts_of_def logged_of_def)
  next
    case (Inr vs)
    with Cons show ?thesis by (simp add: prompts_of_def logged_of_def)
  qed
qed

lemma process_responses_concat:
  "process_responses rs = Inr (concat (map prompts_of rs), concat (map logged_of rs))"
  by (simp add: process_responses_def process_loop_concat)

lemma failure_adds_nothing:
  "extract_prompts_from_json r = Inl e \<Longrightarrow> prompts_of r = [] \<and> logged_of r = [(e, r)]"
  by (simp add: prompts_of_def logged_of_def)

lemma success_adds_prompts:
  "extract_prompts_from_json r = Inr vs \<Longrightarrow> prompts_of r = vs \<and> logged_of r = []"
  by (simp add: prompts_of_def logged_of_def)

section \<open>Concrete responses\<close>

lemma loads_fenced_example:
  \<open>json_loads (strip_fences (ustr ''```json\<newline>[{"prompt":"a"}]\<newline>```'')) =
     Some (JArray [JObject [(PROMPT_KEY, JString (ustr ''a''))]])\<close>
  by code_simp

lemma loads_notprompt_example:
  \<open>strip_fences (ustr ''[{"notprompt":"x"}]'') = ustr ''[{"notprompt":"x"}]'' \<and>
   json_loads (ustr ''[{"notprompt":"x"}]'') =
     Some (JArray [JObject [(ustr ''notprompt'', JString (ustr ''x''))]])\<close>
  by code_simp

lemma loads_mixed_example:
  \<open>strip_fences (ustr ''[5, {"notprompt":"x"}]'') = ustr ''[5, {"notprompt":"x"}]'' \<and>
   json_loads (ustr ''[5, {"notprompt":"x"}]'') =
     Some (JArray [JNumber (ustr ''5''), JObject [(ustr ''notprompt'', JString (ustr ''x''))]])\<close>
  by code_simp

lemma loads_empty_object_example:
  \<open>strip_fences (ustr ''{}'') = ustr ''{}'' \<and> json_loads (ustr ''{}'') = Some (JObject [])\<close>
  by code_simp

lemma loads_two_prompts_example:
  \<open>json_loads (strip_fences (ustr ''[{"prompt":"a"},{"prompt":"b"}]'')) =
     Some (JArray [JObject [(PROMPT_KEY, JString (ustr ''a''))],
                   JObject [(PROMPT_KEY, JString (ustr ''b''))]])\<close>
  by code_simp

lemma loads_malformed_example:
  \<open>strip_fences (ustr ''{not json'') = ustr ''{not json'' \<and> json_loads (ustr ''{not json'') = None\<close>
  by code_simp

lemma loads_number_example:
  \<open>strip_fences (ustr ''5'') = ustr ''5'' \<and> json_loads (ustr ''5'') = Some (JNumber (ustr ''5''))\<close>
  by code_simp

section \<open>Claims about extraction and batches\<close>

text \<open>
  C3. The opening marker has 7 characters and the closing marker 3.
  \<open>extract_prompts_from_json\<close> first drops the opening marker when the text starts with
  it, then drops the closing marker when what is left ends with it. When the rest parses
  as a JSON list of objects that all have the key \<open>"prompt"\<close>, the result is the list of
  the values of that key, in the order of the objects. On the fenced text of the
  specification the result is \<open>["a"]\<close>.
\<close>

theorem extract_strips_fences_and_collects_prompts:
  \<open>length FENCE_OPEN = 7 \<and> length FENCE_CLOSE = 3 \<and>
   strip_fences (FENCE_OPEN @ body @ FENCE_CLOSE) = body \<and>
   (\<not> endswith body FENCE_CLOSE \<longrightarrow> strip_fences (FENCE_OPEN @ body) = body) \<and>
   (\<not> startswith (body @ FENCE_CLOSE) FENCE_OPEN \<longrightarrow>
      strip_fences (body @ FENCE_CLOSE) = body) \<and>
   (\<not> startswith s FENCE_OPEN \<and> \<not> endswith s FENCE_CLOSE \<longrightarrow> strip_fences s = s) \<and>
   (json_loads (strip_fences s) = Some (JArray items) \<and>
    list_all2 (\<lambda>item v. \<exists>kvs. item = JObject kvs \<and> map_of kvs PROMPT_KEY = Some v) items vs \<longrightarrow>
      extract_prompts_from_json s = Inr vs) \<and>
   extract_prompts_from_json (ustr ''```json\<newline>[{"prompt":"a"}]\<newline>```'') =
     Inr [JString (ustr ''a'')]\<close>
proof -
  have general: "json_loads (strip_fences s) = Some (JArray items) \<and>
    list_all2 (\<lambda>item v. \<exists>kvs. item = JObject kvs \<and> map_of kvs PROMPT_KEY = Some v) items vs \<longrightarrow>
      extract_prompts_from_json s = Inr vs" for s items vs
    by (simp add: extract_of_values try_extract_list comprehension_values)
  have \<open>extract_prompts_from_json (ustr ''```json\<newline>[{"prompt":"a"}]\<newline>```'') =
     Inr [JString (ustr ''a'')]\<close>
    using general [of _ "[JObject [(PROMPT_KEY, JString (ustr ''a''))]]" "[JString (ustr ''a'')]"]
      loads_fenced_example
    by simp
  with general [of s items vs] show ?thesis
    by (simp add: fence_lengths strip_fences_both strip_fences_open_only
          strip_fences_close_only strip_fences_none)
qed

theorem extract_strips_fences_witness:
  \<open>extract_prompts_from_json (ustr ''[{"prompt":"a"},{"prompt":"b"}]'') =
     Inr [JString (ustr ''a''), JString (ustr ''b'')]\<close>
  using extract_strips_fences_and_collects_prompts
          [of _ \<open>ustr ''[{"prompt":"a"},{"prompt":"b"}]''\<close>
              "[JObject [(PROMPT_KEY, JString (ustr ''a''))],
                JObject [(PROMPT_KEY, JString (ustr ''b''))]]"
              "[JString (ustr ''a''), JString (ustr ''b'')]"]
        loads_two_prompts_example
  by simp

text \<open>
  C4 (amended). \<open>extract_prompts_from_json\<close> raises a \<open>ValueError\<close> whenever the text
  without its fences does not parse as JSON. It raises a \<open>KeyError\<close> whenever the text
  parses as a list in which the first record that does not carry the key \<open>"prompt"\<close> is
  an object; so it does whenever all records are objects and one lacks the key. Every
  exception it raises is one that \<open>process_responses\<close> catches and logs, and such a
  response adds no prompt. The text \<open>[{"notprompt":"x"}]\<close> raises the \<open>KeyError\<close>.
\<close>

theorem extract_invalid_json_and_missing_key:
  \<open>(json_loads (strip_fences s) = None \<longrightarrow>
      extract_prompts_from_json s =
        Inl (ValueError (ustr ''Invalid JSON string: '' @ strip_fences s))) \<and>
   (json_loads (strip_fences s) = Some (JArray (pre @ item # rest)) \<and>
    list_all has_prompt pre \<and> is_object item \<and> \<not> has_prompt item \<longrightarrow>
      extract_prompts_from_json s =
        Inl (KeyError (ustr ''Missing 'prompt' key in JSON: '' @ strip_fences s))) \<and>
   (json_loads (strip_fences s) = Some (JArray items) \<and> list_all is_object items \<and>
    \<not> list_all has_prompt items \<longrightarrow>
      extract_prompts_from_json s =
        Inl (KeyError (ustr ''Missing 'prompt' key in JSON: '' @ strip_fences s))) \<and>
   (\<forall>e. extract_prompts_from_json s = Inl e \<longrightarrow>
      caught e \<and> process_responses [s] = Inr ([], [(e, s)])) \<and>
   extract_prompts_from_json (ustr ''[{"notprompt":"x"}]'') =
     Inl (KeyError (ustr ''Missing 'prompt' key in JSON: [{"notprompt":"x"}]''))\<close>
proof -
  have first: "json_loads (strip_fences s) = Some (JArray (pre @ item # rest)) \<and>
    list_all has_prompt pre \<and> is_object item \<and> \<not> has_prompt item \<longrightarrow>
      extract_prompts_from_json s =
        Inl (KeyError (ustr ''Missing 'prompt' key in JSON: '' @ strip_fences s))"
    for s pre item rest
    by (simp add: extract_of_key_error try_extract_list comprehension_first_failure)
  have all_objects: "json_loads (strip_fences s) = Some (JArray items) \<and>
    list_all is_object items \<and> \<not> list_all has_prompt items \<longrightarrow>
      extract_prompts_from_json s =
        Inl (KeyError (ustr ''Missing 'prompt' key in JSON: '' @ strip_fences s))"
  proof (intro impI, elim conjE)
    assume loads: "json_loads (strip_fences s) = Some (JArray items)"
      and objs: "list_all is_object items" and some: "\<not> list_all has_prompt items"
    from some obtain pre item rest where split: "items = pre @ item # rest"
      and pre: "\<forall>x\<in>set pre. has_prompt x" and item: "\<not> has_prompt item"
      using split_list_first_prop [where P = "\<lambda>x. \<not> has_prompt x" and xs = items]
      by (auto simp: list_all_iff)
    from objs split have "is_object item" by (simp add: list_all_iff)
    with first [of s pre item rest] loads split pre item show
      "extract_prompts_from_json s =
         Inl (KeyError (ustr ''Missing 'prompt' key in JSON: '' @ strip_fences s))"
      by (simp add: list_all_iff)
  qed
  have logged: "\<forall>e. extract_prompts_from_json s = Inl e \<longrightarrow>
      caught e \<and> process_responses [s] = Inr ([], [(e, s)])"
    by (simp add: extract_caught process_responses_concat failure_adds_nothing)
  have \<open>extract_prompts_from_json (ustr ''[{"notprompt":"x"}]'') =
     Inl (KeyError (ustr ''Missing 'prompt' key in JSON: '' @ ustr ''[{"notprompt":"x"}]''))\<close>
    using loads_notprompt_example
      extract_of_key_error [of \<open>ustr ''[{"notprompt":"x"}]''\<close>]
      comprehension_first_failure
        [of "[]" \<open>JObject [(ustr ''notprompt'', JString (ustr ''x''))]\<close> "[]"]
    by (simp add: try_extract_list PROMPT_KEY_def ustr_def ord_def)
  then have example: \<open>extract_prompts_from_json (ustr ''[{"notprompt":"x"}]'') =
     Inl (KeyError (ustr ''Missing 'prompt' key in JSON: [{"notprompt":"x"}]''))\<close>
    by (simp add: ustr_def)
  have decode: "json_loads (strip_fences s) = None \<longrightarrow>
      extract_prompts_from_json s =
        Inl (ValueError (ustr ''Invalid JSON string: '' @ strip_fences s))"
    by (simp add: extract_of_decode_error)
  show ?thesis
    by (intro conjI decode first all_objects logged example)
qed

theorem extract_invalid_json_witness:
  \<open>extract_prompts_from_json (ustr ''{not json'') =
     Inl (ValueError (ustr ''Invalid JSON string: {not json'')) \<and>
   process_responses [ustr ''{not json''] =
     Inr ([], [(ValueError (ustr ''Invalid JSON string: {not json''), ustr ''{not json'')])\<close>
proof -
  have e: \<open>extract_prompts_from_json (ustr ''{not json'') =
     Inl (ValueError (ustr ''Invalid JSON string: '' @ ustr ''{not json''))\<close>
    using extract_invalid_json_and_missing_key [where s = \<open>ustr ''{not json''\<close>]
      loads_malformed_example
    by simp
  then show ?thesis
    using extract_invalid_json_and_missing_key [where s = \<open>ustr ''{not json''\<close>]
    by (simp add: ustr_def)
qed

text \<open>
  C4 as stated fails when a record that is not an object comes first: in
  \<open>[5, {"notprompt":"x"}]\<close> the second record is an object without the key, and the
  exception is the \<open>RuntimeError\<close> that wraps the \<open>TypeError\<close> of the first record.
\<close>

theorem missing_key_after_non_object_is_runtime_error:
  \<open>json_loads (strip_fences (ustr ''[5, {"notprompt":"x"}]'')) =
     Some (JArray [JNumber (ustr ''5''), JObject [(ustr ''notprompt'', JString (ustr ''x''))]]) \<and>
   extract_prompts_from_json (ustr ''[5, {"notprompt":"x"}]'') =
     Inl (RuntimeError (ustr ''Error extracting prompts from JSON: '') TypeError)\<close>
proof -
  have "comprehension
          [JNumber (ustr ''5''), JObject [(ustr ''notprompt'', JString (ustr ''x''))]] =
        Inl TypeError"
    by (simp add: getitem_prompt_def)
  with loads_mixed_example show ?thesis
    by (simp add: extract_of_type_error try_extract_list)
qed

text \<open>
  C10 (amended). When the text parses as JSON to \<open>null\<close>, a boolean, a number, a string
  that is not empty, an object that is not empty, or a list in which the first record
  that does not carry the key \<open>"prompt"\<close> is not an object, \<open>extract_prompts_from_json\<close>
  raises the \<open>RuntimeError\<close> "Error extracting prompts from JSON", neither the
  \<open>ValueError\<close> nor the \<open>KeyError\<close>. \<open>process_responses\<close> catches it: the response is
  logged, adds no prompt, and the responses before and after it are processed.
\<close>

theorem extract_wrong_shape_is_runtime_error:
  \<open>json_loads (strip_fences s) = Some data \<and>
   (data = JNull \<or> (\<exists>b. data = JBool b) \<or> (\<exists>n. data = JNumber n) \<or>
    (\<exists>c cs. data = JString (c # cs)) \<or> (\<exists>kv kvs. data = JObject (kv # kvs)) \<or>
    (\<exists>pre item rest. data = JArray (pre @ item # rest) \<and> list_all has_prompt pre \<and>
       \<not> is_object item)) \<longrightarrow>
   extract_prompts_from_json s =
     Inl (RuntimeError (ustr ''Error extracting prompts from JSON: '') TypeError) \<and>
   caught (RuntimeError (ustr ''Error extracting prompts from JSON: '') TypeError) \<and>
   process_responses (before @ s # after) =
     Inr (concat (map prompts_of before) @ concat (map prompts_of after),
          concat (map logged_of before) @
          (RuntimeError (ustr ''Error extracting prompts from JSON: '') TypeError, s) #
          concat (map logged_of after))\<close>
proof (intro impI, elim conjE)
  assume loads: "json_loads (strip_fences s) = Some data"
    and shape: "data = JNull \<or> (\<exists>b. data = JBool b) \<or> (\<exists>n. data = JNumber n) \<or>
    (\<exists>c cs. data = JString (c # cs)) \<or> (\<exists>kv kvs. data = JObject (kv # kvs)) \<or>
    (\<exists>pre item rest. data = JArray (pre @ item # rest) \<and> list_all has_prompt pre \<and>
       \<not> is_object item)"
  from loads shape have "try_extract (strip_fences s) = Inl TypeError"
    by (rule try_extract_type_error)
  then have e: "extract_prompts_from_json s =
     Inl (RuntimeError (ustr ''Error extracting prompts from JSON: '') TypeError)"
    by (rule extract_of_type_error)
  from failure_adds_nothing [OF e] e
  show "extract_prompts_from_json s =
     Inl (RuntimeError (ustr ''Error extracting prompts from JSON: '') TypeError) \<and>
   caught (RuntimeError (ustr ''Error extracting prompts from JSON: '') TypeError) \<and>
   process_responses (before @ s # after) =
     Inr (concat (map prompts_of before) @ concat (map prompts_of after),
          concat (map logged_of before) @
          (RuntimeError (ustr ''Error extracting prompts from JSON: '') TypeError, s) #
          concat (map logged_of after))"
    by (simp add: process_responses_concat)
qed

theorem extract_wrong_shape_witness:
  \<open>extract_prompts_from_json (ustr ''5'') =
     Inl (RuntimeError (ustr ''Error extracting prompts from JSON: '') TypeError) \<and>
   process_responses [ustr ''5''] =
     Inr ([], [(RuntimeError (ustr ''Error extracting prompts from JSON: '') TypeError,
                ustr ''5'')])\<close>
  using extract_wrong_shape_is_runtime_error [of \<open>ustr ''5''\<close> \<open>JNumber (ustr ''5'')\<close> "[]" "[]"]
    loads_number_example
  by simp

text \<open>
  C10 as stated fails on the empty object: \<open>{}\<close> parses as JSON to a value that is not a
  list of objects, the loop over it has nothing to visit, and the result is the empty
  list of prompts, without any exception.
\<close>

theorem empty_object_yields_no_error:
  \<open>json_loads (strip_fences (ustr ''{}'')) = Some (JObject []) \<and>
   extract_prompts_from_json (ustr ''{}'') = Inr []\<close>
  using loads_empty_object_example
  by (simp add: extract_of_values try_extract_def iterate_def)

text \<open>
  C2. For every list of responses \<open>process_responses\<close> raises nothing and returns the
  prompts of the responses that extract, joined in the order of the responses; a
  response whose extraction fails adds no prompt and one entry, with the error and the
  response, to the log. A batch of a response that yields \<open>a\<close>, \<open>b\<close> and a response that
  fails yields exactly \<open>a\<close>, \<open>b\<close>.
\<close>

theorem process_responses_concatenates_successes:
  "process_responses rs = Inr (concat (map prompts_of rs), concat (map logged_of rs)) \<and>
   (\<forall>vs. extract_prompts_from_json r = Inr vs \<longrightarrow> prompts_of r = vs \<and> logged_of r = []) \<and>
   (\<forall>e. extract_prompts_from_json r = Inl e \<longrightarrow> prompts_of r = [] \<and> logged_of r = [(e, r)]) \<and>
   (extract_prompts_from_json r1 = Inr [a, b] \<and> extract_prompts_from_json r2 = Inl e \<longrightarrow>
      process_responses [r1, r2] = Inr ([a, b], [(e, r2)]))"
  by (simp add: process_responses_concat failure_adds_nothing success_adds_prompts)

theorem process_responses_witness:
  \<open>process_responses [ustr ''[{"prompt":"a"},{"prompt":"b"}]'', ustr ''{not json''] =
     Inr ([JString (ustr ''a''), JString (ustr ''b'')],
          [(ValueError (ustr ''Invalid JSON string: {not json''), ustr ''{not json'')])\<close>
proof -
  have one: \<open>extract_prompts_from_json (ustr ''[{"prompt":"a"},{"prompt":"b"}]'') =
     Inr [JString (ustr ''a''), JString (ustr ''b'')]\<close>
    using loads_two_prompts_example
    by (simp add: extract_of_values try_extract_list getitem_prompt_def)
  have two: \<open>extract_prompts_from_json (ustr ''{not json'') =
     Inl (ValueError (ustr ''Invalid JSON string: {not json''))\<close>
    using loads_malformed_example extract_of_decode_error [of \<open>ustr ''{not json''\<close>]
    by (simp add: ustr_def)
  from process_responses_concatenates_successes
         [of _ _ \<open>ustr ''[{"prompt":"a"},{"prompt":"b"}]''\<close> \<open>JString (ustr ''a'')\<close>
             \<open>JString (ustr ''b'')\<close> \<open>ustr ''{not json''\<close>
             \<open>ValueError (ustr ''Invalid JSON string: {not json'')\<close>]
       one two
  show ?thesis by simp
qed

end
